theory Spec2Isabelle
  imports Main "HOL-Library.Sublist"
begin

text \<open>
  A shallow embedding of \<^verbatim>\<open>src/lib/sqlize/index.js\<close>: the connection manager
  \<^verbatim>\<open>Sqlize\<close> (default fields, method wrapping, initialization, meta-seeding, the
  engine-version check, the query interceptor) and the static methods of
  \<^verbatim>\<open>Sqlize.Model\<close> (unique-index groups, the version store). Asynchronous functions are
  modelled by their outcome: a rejection or a synchronous throw is \<open>Inl\<close>, a result
  \<open>Inr\<close>; what a function changes is returned with it.
\<close>

section \<open>JavaScript values and objects\<close>

text \<open>
  The library is JavaScript. The primitive values that reach the code verified here are
  \<^verbatim>\<open>undefined\<close>, \<^verbatim>\<open>null\<close>, booleans and strings; \<open>truthy\<close> is the language's
  boolean coercion and \<open>js_or\<close> the operator \<^verbatim>\<open>a || b\<close>. Numbers and symbols do
  not occur in the modelled paths.
\<close>

datatype jsval = JUndefined | JNull | JBool bool | JStr string

fun truthy :: "jsval \<Rightarrow> bool" where
  "truthy JUndefined = False"
| "truthy JNull = False"
| "truthy (JBool b) = b"
| "truthy (JStr s) = (s \<noteq> [])"

definition js_or :: "jsval \<Rightarrow> jsval \<Rightarrow> jsval" where
  "js_or a b = (if truthy a then a else b)"

text \<open>
  The string a value converts to, as a property key in \<^verbatim>\<open>obj[value]\<close> and inside a
  template literal.
\<close>

fun to_key :: "jsval \<Rightarrow> string" where
  "to_key JUndefined = ''undefined''"
| "to_key JNull = ''null''"
| "to_key (JBool b) = (if b then ''true'' else ''false'')"
| "to_key (JStr s) = s"

text \<open>\<^verbatim>\<open>Array.prototype.join\<close> on strings.\<close>

fun join :: "string \<Rightarrow> string list \<Rightarrow> string" where
  "join sep [] = []"
| "join sep [x] = x"
| "join sep (x # y # ys) = x @ sep @ join sep (y # ys)"

text \<open>
  \<^verbatim>\<open>String.prototype.split\<close> at runs of whitespace (\<^verbatim>\<open>/\\s+/g\<close>), for the whitespace
  characters of ASCII.
\<close>

definition is_space :: "char \<Rightarrow> bool" where
  "is_space c = (c \<in> set [CHR '' '', CHR 0x09, CHR 0x0A, CHR 0x0B, CHR 0x0C, CHR 0x0D])"

function split_spaces :: "string \<Rightarrow> string list" where
  "split_spaces [] = [[]]"
| "split_spaces (c # cs) =
     (if is_space c then [] # split_spaces (dropWhile is_space cs)
      else (case split_spaces cs of
              [] \<Rightarrow> [[c]]
            | w # ws \<Rightarrow> (c # w) # ws))"
  by pat_completeness auto
termination
  by (relation "measure length") (auto intro: le_imp_less_Suc length_dropWhile_le)

text \<open>
  A plain object is the list of its own properties: an object the code receives in the
  order it enumerates them, an object the code builds in the order it creates them.
  Assigning to a name the object already has replaces the value where it stands; a new
  name goes last. Assigning to \<^verbatim>\<open>__proto__\<close> on an object that has no own property of
  that name reaches the setter inherited from \<^verbatim>\<open>Object.prototype\<close>: it creates no
  property. (What an object inherits after such an assignment is outside the model.)
\<close>

type_synonym 'v obj = "(string \<times> 'v) list"

fun obj_set :: "string \<Rightarrow> 'v \<Rightarrow> 'v obj \<Rightarrow> 'v obj" where
  "obj_set k v [] = (if k = ''__proto__'' then [] else [(k, v)])"
| "obj_set k v ((k', v') # kvs) =
     (if k = k' then (k, v) # kvs else (k', v') # obj_set k v kvs)"

text \<open>
  Reading a name a plain object has no own property for finds the member of
  \<^verbatim>\<open>Object.prototype\<close> of that name, if there is one; each of them is truthy (a
  function, or for \<^verbatim>\<open>__proto__\<close> the prototype object).
\<close>

definition object_prototype_members :: "string list" where
  "object_prototype_members =
     [''constructor'', ''__defineGetter__'', ''__defineSetter__'', ''hasOwnProperty'',
      ''__lookupGetter__'', ''__lookupSetter__'', ''isPrototypeOf'',
      ''propertyIsEnumerable'', ''toString'', ''valueOf'', ''__proto__'',
      ''toLocaleString'']"

text \<open>
  Enumerating an object (\<^verbatim>\<open>Object.values\<close>) lists the properties named by an array
  index first, in ascending order, then the others in creation order. An array index is
  the canonical decimal form of a number below \<open>2\<^sup>3\<^sup>2 - 1\<close>.
\<close>

definition is_digit :: "char \<Rightarrow> bool" where
  "is_digit c = (c \<in> set ''0123456789'')"

definition decimal :: "string \<Rightarrow> nat" where
  "decimal str = foldl (\<lambda>n c. 10 * n + (of_char c - 48)) 0 str"

definition array_index :: "string \<Rightarrow> nat option" where
  "array_index str =
     (if str = [] then None
      else if \<not> list_all is_digit str then None
      else if hd str = CHR ''0'' \<and> str \<noteq> ''0'' then None
      else if 4294967295 \<le> decimal str then None
      else Some (decimal str))"

definition own_entries :: "'v obj \<Rightarrow> 'v obj" where
  "own_entries object =
     sort_key (\<lambda>(k, v). case array_index k of Some n \<Rightarrow> n | None \<Rightarrow> 0)
       (filter (\<lambda>(k, v). array_index k \<noteq> None) object) @
     filter (\<lambda>(k, v). array_index k = None) object"

definition object_assign :: "'v obj \<Rightarrow> 'v obj \<Rightarrow> 'v obj" where
  "object_assign target source = foldl (\<lambda>acc (k, v). obj_set k v acc) target source"

section \<open>Default fields: \<^verbatim>\<open>addDefaultFields\<close>, \<^verbatim>\<open>addTimestamps\<close>\<close>

datatype data_type = DATE | OTHER string

record descriptor =
  field :: jsval
  autoGenerated :: "bool option"
  type :: "data_type option"
  allowNull :: "bool option"
  unique :: jsval

record options =
  timestamps :: jsval
  createdAt :: jsval
  updatedAt :: jsval
  deletedAt :: jsval

text \<open>
  \<^verbatim>\<open>define\<close> turns \<^verbatim>\<open>options.timestamps\<close> into \<^verbatim>\<open>true\<close> unless it is \<^verbatim>\<open>false\<close>
  before it calls \<^verbatim>\<open>addDefaultFields\<close>.
\<close>

definition define_options :: "options \<Rightarrow> options" where
  "define_options options =
     (if timestamps options \<noteq> JBool False then options\<lparr>timestamps := JBool True\<rparr>
      else options)"

definition addTimestamps :: "descriptor obj \<Rightarrow> options \<Rightarrow> descriptor obj" where
  "addTimestamps flds options =
     (let tail0 = [];
          tail1 =
            (if createdAt options \<noteq> JBool False
             then object_assign tail0
                    [(''createdAt'',
                      \<lparr>field = js_or (createdAt options) (JStr ''created_at''),
                       autoGenerated = Some True, type = Some DATE,
                       allowNull = Some False, unique = JUndefined\<rparr>)]
             else tail0);
          tail2 =
            (if updatedAt options \<noteq> JBool False
             then object_assign tail1
                    [(''updatedAt'',
                      \<lparr>field = js_or (updatedAt options) (JStr ''updated_at''),
                       autoGenerated = Some True, type = Some DATE,
                       allowNull = Some False, unique = JUndefined\<rparr>)]
             else tail1);
          tail3 =
            (if deletedAt options \<noteq> JBool False
             then object_assign tail2
                    [(''deletedAt'',
                      \<lparr>field = js_or (deletedAt options) (JStr ''deleted_at''),
                       autoGenerated = Some True, type = Some DATE,
                       allowNull = None, unique = JUndefined\<rparr>)]
             else tail2)
      in object_assign (object_assign [] flds) tail3)"

definition addDefaultFields :: "descriptor obj \<Rightarrow> options \<Rightarrow> descriptor obj" where
  "addDefaultFields flds options =
     (if truthy (timestamps options) then addTimestamps flds options else flds)"

text \<open>
  The spec's reading of the result: the synthetic fields whose option flag is not
  \<^verbatim>\<open>false\<close>, in the order \<^verbatim>\<open>createdAt\<close>, \<^verbatim>\<open>updatedAt\<close>, \<^verbatim>\<open>deletedAt\<close>; the first two
  non-nullable dates, the last a date with no nullability restriction, each marked
  generated.
\<close>

definition synthetic_field :: "jsval \<Rightarrow> string \<Rightarrow> bool option \<Rightarrow> descriptor" where
  "synthetic_field flag column nullable =
     \<lparr>field = js_or flag (JStr column), autoGenerated = Some True, type = Some DATE,
      allowNull = nullable, unique = JUndefined\<rparr>"

definition synthetic_fields :: "options \<Rightarrow> descriptor obj" where
  "synthetic_fields options =
     (if createdAt options \<noteq> JBool False
      then [(''createdAt'', synthetic_field (createdAt options) ''created_at'' (Some False))]
      else []) @
     (if updatedAt options \<noteq> JBool False
      then [(''updatedAt'', synthetic_field (updatedAt options) ''updated_at'' (Some False))]
      else []) @
     (if deletedAt options \<noteq> JBool False
      then [(''deletedAt'', synthetic_field (deletedAt options) ''deleted_at'' None)]
      else [])"

section \<open>Unique-index groups: \<^verbatim>\<open>uniqueIndices\<close>\<close>

text \<open>
  \<^verbatim>\<open>transform\<close> visits the attributes in order with one accumulator object, which
  inherits from \<^verbatim>\<open>Object.prototype\<close>. The accumulator is indexed by \<^verbatim>\<open>acc[unique]\<close>
  and by \<^verbatim>\<open>acc[field]\<close>, so both markers and column names are turned into property
  keys of the same object. Its own values are arrays, which are truthy, so
  \<^verbatim>\<open>acc[unique]\<close> is truthy exactly when the key is an own property or names an
  inherited member. \<^verbatim>\<open>filter(rawAttributes, { unique })\<close> keeps the attributes whose
  marker equals the given one. \<^verbatim>\<open>Object.values\<close> enumerates the accumulator.
\<close>

definition acc_truthy :: "'v obj \<Rightarrow> string \<Rightarrow> bool" where
  "acc_truthy acc key =
     (if map_of acc key \<noteq> None then True else key \<in> set object_prototype_members)"

definition uniqueIndices_step ::
  "descriptor obj \<Rightarrow> jsval list obj \<Rightarrow> descriptor \<Rightarrow> jsval list obj" where
  "uniqueIndices_step rawAttributes acc attr =
     (if \<not> truthy (unique attr) then acc
      else if acc_truthy acc (to_key (unique attr)) then acc
      else if unique attr = JBool True
           then obj_set (to_key (field attr)) [field attr] acc
           else obj_set (to_key (unique attr))
                  (map field (filter (\<lambda>a. unique a = unique attr) (map snd rawAttributes)))
                  acc)"

definition uniqueIndices :: "descriptor obj \<Rightarrow> jsval list list" where
  "uniqueIndices rawAttributes =
     map snd (own_entries (foldl (uniqueIndices_step rawAttributes) [] (map snd rawAttributes)))"

section \<open>Errors and method results\<close>

datatype js_error = JsError (err_name: string) (message: string) (sql: "string option")

text \<open>
  What a model method can return: a primitive, an object (with an identity, and whether
  its \<^verbatim>\<open>then\<close> and its \<^verbatim>\<open>catch\<close> properties are functions), or an instance of the
  canonical promise class that settles as the given value does.
  \<^verbatim>\<open>Promise.resolve\<close> returns an instance of its own class as it is and wraps
  everything else.
\<close>

datatype rvalue = Prim jsval | Obj nat bool bool | Canonical rvalue

fun truthy_result :: "rvalue \<Rightarrow> bool" where
  "truthy_result (Prim v) = truthy v"
| "truthy_result (Obj i t c) = True"
| "truthy_result (Canonical r) = True"

fun catch_isFunction :: "rvalue \<Rightarrow> bool" where
  "catch_isFunction (Prim v) = False"
| "catch_isFunction (Obj i t c) = c"
| "catch_isFunction (Canonical r) = True"

fun thenable :: "rvalue \<Rightarrow> bool" where
  "thenable (Prim v) = False"
| "thenable (Obj i t c) = t"
| "thenable (Canonical r) = True"

fun Promise_resolve :: "rvalue \<Rightarrow> rvalue" where
  "Promise_resolve (Canonical r) = Canonical r"
| "Promise_resolve r = Canonical r"

section \<open>Method wrapping: \<^verbatim>\<open>wrapMethod\<close>, \<^verbatim>\<open>wrapMethods\<close>\<close>

text \<open>
  An own property is a method (a data property whose value is a function, here a function
  from the call's receiver and arguments to a thrown error or a returned value), a data
  property with another value, or an accessor (whose descriptor has no \<^verbatim>\<open>value\<close>).
\<close>

datatype 'a property = Method "'a \<Rightarrow> js_error + rvalue" | Data rvalue | Accessor

definition wrapped :: "('a \<Rightarrow> js_error + rvalue) \<Rightarrow> 'a \<Rightarrow> js_error + rvalue" where
  "wrapped value args =
     (case value args of
        Inl err \<Rightarrow> Inl err
      | Inr result \<Rightarrow>
          (if \<not> truthy_result result then Inr result
           else if \<not> catch_isFunction result then Inr result
           else Inr (Promise_resolve result)))"

definition wrapMethod :: "'a property obj \<Rightarrow> string \<Rightarrow> js_error + 'a property obj" where
  "wrapMethod object key =
     (if key = ''constructor'' then Inr object
      else case map_of object key of
             None \<Rightarrow> Inl (JsError ''TypeError'' ''Cannot destructure property value'' None)
           | Some (Method value) \<Rightarrow> Inr (obj_set key (Method (wrapped value)) object)
           | Some other \<Rightarrow> Inr object)"

fun forEach_wrapMethod :: "string list \<Rightarrow> 'a property obj \<Rightarrow> js_error + 'a property obj" where
  "forEach_wrapMethod [] object = Inr object"
| "forEach_wrapMethod (key # keys) object =
     (case wrapMethod object key of
        Inl err \<Rightarrow> Inl err
      | Inr object' \<Rightarrow> forEach_wrapMethod keys object')"

record 'a ctor =
  prototype :: "'a property obj"
  statics :: "'a property obj"

definition wrapCtor :: "'a ctor \<Rightarrow> js_error + 'a ctor" where
  "wrapCtor Ctor =
     (case forEach_wrapMethod (map fst (prototype Ctor)) (prototype Ctor) of
        Inl err \<Rightarrow> Inl err
      | Inr proto \<Rightarrow>
          (case forEach_wrapMethod (map fst (statics Ctor)) (statics Ctor) of
             Inl err \<Rightarrow> Inl err
           | Inr stat \<Rightarrow> Inr \<lparr>prototype = proto, statics = stat\<rparr>))"

text \<open>
  The argument is the chain the loop walks: the model class first, then its ancestors
  below the ORM's base model class.
\<close>

fun wrapMethods :: "'a ctor list \<Rightarrow> js_error + 'a ctor list" where
  "wrapMethods [] = Inr []"
| "wrapMethods (Ctor # chain) =
     (case wrapCtor Ctor of
        Inl err \<Rightarrow> Inl err
      | Inr Ctor' \<Rightarrow>
          (case wrapMethods chain of
             Inl err \<Rightarrow> Inl err
           | Inr chain' \<Rightarrow> Inr (Ctor' # chain')))"

text \<open>The spec's reading: every own method other than the constructor is replaced by its wrapper.\<close>

definition normalized :: "'a property obj \<Rightarrow> 'a property obj" where
  "normalized object =
     map (\<lambda>(key, p). (key, case p of
                              Method value \<Rightarrow>
                                if key = ''constructor'' then p else Method (wrapped value)
                            | other \<Rightarrow> p)) object"

text \<open>One property under \<open>normalized\<close>.\<close>

definition normalize1 :: "string \<Rightarrow> 'a property \<Rightarrow> 'a property" where
  "normalize1 key p = (case p of
       Method value \<Rightarrow> if key = ''constructor'' then p else Method (wrapped value)
     | other \<Rightarrow> p)"

section \<open>The connection manager\<close>

text \<open>
  The state of one connection manager: the models installed by \<^verbatim>\<open>register\<close>
  (\<^verbatim>\<open>this.$models\<close>, which the constructor leaves undefined), \<^verbatim>\<open>this.$sequelize\<close>, what
  the configured logger has been given, the events emitted on the manager, and the rows
  of the system-metadata table (name and data mapping).
\<close>

datatype model_class = ModelClass string

datatype json = JsonNull | JsonStr string | JsonObj "(string \<times> json) list"

datatype level = DEBUG | INFO | ERROR

datatype log_context =
    CtxNone
  | CtxConfig
  | CtxFile jsval
  | CtxMigration string
  | CtxVersion string
  | CtxMigrations "string list"
  | CtxRequired string string
  | CtxErr js_error "string option"

type_synonym log_entry = "level \<times> log_context \<times> string list"

record sqlize =
  models :: "(string \<times> model_class) list option"
  dollar_sequelize :: "string option"
  logged :: "log_entry list"
  emitted :: "(string \<times> js_error) list"
  system_meta :: "(string \<times> (string \<times> json) list) list"

text \<open>
  What the manager's surroundings answer: the configuration (\<^verbatim>\<open>dialect\<close>), the package
  descriptor (\<^verbatim>\<open>pkg.name\<close>, \<^verbatim>\<open>pkg.engines\<close>), the process mode, and the outcomes of the
  calls into the ORM, the migration runner, the version-range library and the date
  library. \<open>satisfies version range\<close> stands for
  \<^verbatim>\<open>semver.satisfies(semver.coerce(version), range)\<close>; \<open>umzug_reports\<close> is what the
  migration runner hands to its \<^verbatim>\<open>logging\<close> callback and its four lifecycle events,
  in order, while \<^verbatim>\<open>up\<close> runs.
\<close>

datatype jsdate = Date int | InvalidDate

record migration =
  migration_file :: string

datatype umzug_report =
    Logging string
  | Migrating string
  | Migrated string
  | Reverting string
  | Reverted string

record env =
  dialect :: string
  pkg_name :: string
  pkg_engines :: "(string \<times> string) list option"
  isProduction :: bool
  authenticate :: "js_error option"
  databaseVersion :: "js_error + string"
  satisfies :: "string \<Rightarrow> string \<Rightarrow> bool"
  umzug_reports :: "umzug_report list"
  umzug_up :: "js_error option"
  umzug_executed :: "js_error + migration list"
  super_model :: "string \<Rightarrow> js_error + model_class option"
  super_query :: "string \<Rightarrow> js_error + jsval list"
  parseISO :: "string \<Rightarrow> jsdate"

text \<open>
  Modelled from the spec: the logger object is supplied by the configuration. A call of
  \<^verbatim>\<open>logger.info\<close> or \<^verbatim>\<open>logger.error\<close> records its level, context and message parts and
  returns normally. (The pictographs that open some messages are left out.)
\<close>

definition logger :: "level \<Rightarrow> log_context \<Rightarrow> string list \<Rightarrow> sqlize \<Rightarrow> sqlize" where
  "logger lvl ctx parts s = s\<lparr>logged := logged s @ [(lvl, ctx, parts)]\<rparr>"

text \<open>
  Modelled from the spec: the event mixin (\<^verbatim>\<open>./events\<close>) is not among the sources.
  \<^verbatim>\<open>emit\<close> records the named event and its payload on the manager, for its
  subscribers, and returns normally.
\<close>

definition emit :: "string \<Rightarrow> js_error \<Rightarrow> sqlize \<Rightarrow> sqlize" where
  "emit event payload s = s\<lparr>emitted := emitted s @ [(event, payload)]\<rparr>"

subsection \<open>\<^verbatim>\<open>query\<close>\<close>

definition query :: "env \<Rightarrow> string \<Rightarrow> sqlize \<Rightarrow> (js_error + jsval list) \<times> sqlize" where
  "query e sqlText s =
     (case super_query e sqlText of
        Inr rows \<Rightarrow> (Inr rows, s)
      | Inl err \<Rightarrow>
          (let ctx = CtxErr err (case sql err of
                                   None \<Rightarrow> None
                                 | Some q \<Rightarrow> if q \<noteq> [] then Some q else None);
               s1 = logger ERROR ctx [''Database error:'', message err] s;
               s2 = emit ''error'' err s1
           in (Inl err, s2)))"

subsection \<open>\<^verbatim>\<open>checkDatabaseVersion\<close>\<close>

datatype ret = Undefined | This

definition engines_range :: "env \<Rightarrow> jsval" where
  "engines_range e =
     (case pkg_engines e of
        None \<Rightarrow> JUndefined
      | Some engines \<Rightarrow>
          (case map_of engines (dialect e) of None \<Rightarrow> JUndefined | Some r \<Rightarrow> JStr r))"

definition requires_message :: "string \<Rightarrow> string \<Rightarrow> string \<Rightarrow> string" where
  "requires_message name dia required =
     [CHR 0x22] @ name @ [CHR 0x22] @ '' requires '' @ dia @ '' '' @ required"

definition checkDatabaseVersion :: "env \<Rightarrow> sqlize \<Rightarrow> (js_error + ret) \<times> sqlize" where
  "checkDatabaseVersion e s =
     (case databaseVersion e of
        Inl rejected \<Rightarrow> (Inl rejected, s)
      | Inr version \<Rightarrow>
          (let s1 = logger INFO (CtxVersion version) [dialect e @ '' version:'', version] s;
               required = engines_range e
           in if \<not> truthy required then (Inr This, s1)
              else if satisfies e version (to_key required) then (Inr This, s1)
              else (let err = JsError ''Error''
                                (requires_message (pkg_name e) (dialect e) (to_key required)) None;
                        s2 = logger ERROR (CtxRequired version (to_key required)) [message err] s1
                    in (Inl err, s2))))"

subsection \<open>\<^verbatim>\<open>migrate\<close>\<close>

text \<open>
  The migration runner is a library; its two calls are taken by their outcomes and by
  what the runner reports on the way. Pending migrations are applied outside production
  only; the executed migrations are reported either way. The \<^verbatim>\<open>logging\<close> callback
  drops a line that starts with \<^verbatim>\<open>==\<close>, logs a line that starts with \<^verbatim>\<open>File:\<close> with
  its second word as context, and logs any other line as it is; each lifecycle event is
  logged with the migration it carries.
\<close>

definition umzug_handler :: "umzug_report \<Rightarrow> sqlize \<Rightarrow> sqlize" where
  "umzug_handler report s =
     (case report of
        Logging line \<Rightarrow>
          (if prefix ''=='' line then s
           else if prefix ''File:'' line
                then logger INFO
                       (CtxFile (case split_spaces line of
                                   first # second # rest \<Rightarrow> JStr second
                                 | other \<Rightarrow> JUndefined))
                       [line] s
                else logger INFO CtxNone [line] s)
      | Migrating m \<Rightarrow> logger INFO (CtxMigration m) [''Migrating:'', m] s
      | Migrated m \<Rightarrow> logger INFO (CtxMigration m) [''Migrated:'', m] s
      | Reverting m \<Rightarrow> logger INFO (CtxMigration m) [''Reverting:'', m] s
      | Reverted m \<Rightarrow> logger INFO (CtxMigration m) [''Reverted:'', m] s)"

definition migrate :: "env \<Rightarrow> sqlize \<Rightarrow> (js_error + migration list) \<times> sqlize" where
  "migrate e s =
     (if \<not> isProduction e
      then (let s1 = foldl (\<lambda>s' report. umzug_handler report s') s (umzug_reports e)
            in case umzug_up e of
                 Some err \<Rightarrow> (Inl err, s1)
               | None \<Rightarrow> (umzug_executed e, s1))
      else (umzug_executed e, s))"

subsection \<open>\<^verbatim>\<open>model\<close> and \<^verbatim>\<open>initSystemMeta\<close>\<close>

text \<open>
  \<^verbatim>\<open>this.$models[name] || super.model(name)\<close>: reading a property of the undefined
  \<^verbatim>\<open>$models\<close> throws a \<^verbatim>\<open>TypeError\<close>; a registered class is returned as it is; any
  other name goes to the base class, which may throw, return nothing or return a class.
\<close>

definition model :: "env \<Rightarrow> sqlize \<Rightarrow> string \<Rightarrow> js_error + model_class option" where
  "model e s name =
     (case models s of
        None \<Rightarrow> Inl (JsError ''TypeError'' ''Cannot read properties of undefined'' None)
      | Some registered \<Rightarrow>
          (case map_of registered name of
             Some Model \<Rightarrow> Inr (Some Model)
           | None \<Rightarrow> super_model e name))"

text \<open>
  Modelled from the spec: the \<^verbatim>\<open>SystemMeta\<close> sibling model is not among the sources. Its
  \<^verbatim>\<open>name\<close> is a unique key and its \<^verbatim>\<open>data\<close> a mapping. \<^verbatim>\<open>bulkCreate\<close> inserts the items
  in order; an item whose name is taken is skipped under \<^verbatim>\<open>ignoreDuplicates\<close> and
  rejects the call otherwise.
\<close>

fun bulkCreate ::
  "(string \<times> (string \<times> json) list) list \<Rightarrow> bool \<Rightarrow> (string \<times> (string \<times> json) list) list \<Rightarrow>
   js_error + (string \<times> (string \<times> json) list) list" where
  "bulkCreate [] ignoreDuplicates table = Inr table"
| "bulkCreate ((name, d) # items) ignoreDuplicates table =
     (if map_of table name \<noteq> None
      then (if ignoreDuplicates then bulkCreate items ignoreDuplicates table
            else Inl (JsError ''SequelizeUniqueConstraintError'' ''Validation error'' None))
      else bulkCreate items ignoreDuplicates (table @ [(name, d)]))"

text \<open>
  Modelled from the spec: \<^verbatim>\<open>findOrCreate\<close> of the \<^verbatim>\<open>SystemMeta\<close> model returns the data
  of the record of that name, creating the record with an empty data mapping when there
  is none.
\<close>

definition findOrCreate ::
  "string \<Rightarrow> (string \<times> (string \<times> json) list) list \<Rightarrow>
   (string \<times> json) list \<times> (string \<times> (string \<times> json) list) list" where
  "findOrCreate name table =
     (case map_of table name of
        Some d \<Rightarrow> (d, table)
      | None \<Rightarrow> ([], table @ [(name, [])]))"

text \<open>
  \<open>options\<close> is the caller's override of \<^verbatim>\<open>ignoreDuplicates\<close>, if any
  (\<^verbatim>\<open>{ ignoreDuplicates: true, ...options }\<close>). The result is \<^verbatim>\<open>undefined\<close> (\<open>None\<close>)
  or the created items.
\<close>

definition initSystemMeta ::
  "env \<Rightarrow> (string \<times> (string \<times> json) list) list \<Rightarrow> bool option \<Rightarrow> sqlize \<Rightarrow>
   (js_error + (string \<times> (string \<times> json) list) list option) \<times> sqlize" where
  "initSystemMeta e records opts s =
     (case model e s ''SystemMeta'' of
        Inl err \<Rightarrow> (Inl err, s)
      | Inr None \<Rightarrow> (Inr None, s)
      | Inr (Some SystemMeta) \<Rightarrow>
          (let items = map (\<lambda>(name, d). (name, d)) records;
               ignoreDuplicates = (case opts of None \<Rightarrow> True | Some b \<Rightarrow> b)
           in case bulkCreate items ignoreDuplicates (system_meta s) of
                Inl err \<Rightarrow> (Inl err, s)
              | Inr table \<Rightarrow> (Inr (Some items), s\<lparr>system_meta := table\<rparr>)))"

subsection \<open>\<^verbatim>\<open>initialize\<close>\<close>

definition initialize :: "env \<Rightarrow> string option \<Rightarrow> sqlize \<Rightarrow> (js_error + ret) \<times> sqlize" where
  "initialize e otherDb s =
     (let s0 = s\<lparr>dollar_sequelize := otherDb\<rparr> in
      case authenticate e of
        Some err \<Rightarrow> (Inl err, s0)
      | None \<Rightarrow>
          (let s1 = logger INFO CtxConfig [''Connected to database''] s0 in
           case checkDatabaseVersion e s1 of
             (Inl err, s2) \<Rightarrow> (Inl err, s2)
           | (Inr checked, s2) \<Rightarrow>
               (case migrate e s2 of
                  (Inl err, s3) \<Rightarrow> (Inl err, s3)
                | (Inr migrations, s3) \<Rightarrow>
                    (let files = map migration_file migrations in
                     if files = [] then (Inr Undefined, s3)
                     else (let s4 = logger INFO (CtxMigrations files)
                                      [''Executed migrations:'' @ [CHR 0x0A],
                                       join [CHR 0x0A] files] s3
                           in case initSystemMeta e [(''versions'', [])] None s4 of
                                (Inl err, s5) \<Rightarrow> (Inl err, s5)
                              | (Inr seeded, s5) \<Rightarrow> (Inr This, s5))))))"

section \<open>The version store: \<^verbatim>\<open>getSystemMeta\<close>, \<^verbatim>\<open>getVersion\<close>, \<^verbatim>\<open>setVersion\<close>\<close>

text \<open>
  A metadata record held in memory: its name and its data mapping. A version is given
  in the form the data mapping holds it in (an ISO-8601 string for a timestamp).
\<close>

record meta =
  meta_name :: string
  data :: "(string \<times> json) list"

definition getSystemMeta :: "env \<Rightarrow> string \<Rightarrow> sqlize \<Rightarrow> (js_error + meta) \<times> sqlize" where
  "getSystemMeta e name s =
     (case model e s ''SystemMeta'' of
        Inl err \<Rightarrow> (Inl err, s)
      | Inr None \<Rightarrow>
          (Inl (JsError ''TypeError'' ''Cannot read properties of undefined'' None), s)
      | Inr (Some SystemMeta) \<Rightarrow>
          (case findOrCreate name (system_meta s) of
             (d, table) \<Rightarrow> (Inr \<lparr>meta_name = name, data = d\<rparr>, s\<lparr>system_meta := table\<rparr>)))"

text \<open>
  \<^verbatim>\<open>get(sm, ['data', key])\<close>: each element of an array path is one property name, read
  as \<^verbatim>\<open>data[key]\<close>: the own entry, else the member of \<^verbatim>\<open>Object.prototype\<close> of that
  name, else \<^verbatim>\<open>undefined\<close>.
\<close>

datatype entry = Own json | Inherited | Absent

definition get_data :: "meta \<Rightarrow> string \<Rightarrow> entry" where
  "get_data sm key =
     (case map_of (data sm) key of
        Some v \<Rightarrow> Own v
      | None \<Rightarrow> if key \<in> set object_prototype_members then Inherited else Absent)"

fun entry_truthy :: "entry \<Rightarrow> bool" where
  "entry_truthy Absent = False"
| "entry_truthy Inherited = True"
| "entry_truthy (Own JsonNull) = False"
| "entry_truthy (Own (JsonStr str)) = (str \<noteq> [])"
| "entry_truthy (Own (JsonObj kvs)) = True"

text \<open>The date library parses strings; any other argument gives an invalid date.\<close>

fun parseISO_of :: "env \<Rightarrow> entry \<Rightarrow> jsdate" where
  "parseISO_of e (Own (JsonStr str)) = parseISO e str"
| "parseISO_of e other = InvalidDate"

definition getVersion :: "env \<Rightarrow> string \<Rightarrow> sqlize \<Rightarrow> (js_error + jsdate) \<times> sqlize" where
  "getVersion e modelName s =
     (case getSystemMeta e ''versions'' s of
        (Inl err, s1) \<Rightarrow> (Inl err, s1)
      | (Inr sm, s1) \<Rightarrow>
          (let version = get_data sm modelName
           in (Inr (if entry_truthy version then parseISO_of e version else Date 0), s1)))"

text \<open>
  \<^verbatim>\<open>['data', this.name].join('.')\<close> and the ORM's \<^verbatim>\<open>set\<close> on such a key, which
  always has a dot and so never names an attribute: when the key starts with the name
  of the structured attribute \<^verbatim>\<open>data\<close>, it is split at every dot and the value is
  stored along that path, creating the objects missing on the way and refusing to
  descend into a value that is not an object; any other key is ignored. \<^verbatim>\<open>save\<close> writes
  the record back under its name. These are library calls: persistence errors, which
  would propagate unchanged, are outside the model.
\<close>

fun split_at :: "char \<Rightarrow> string \<Rightarrow> string list" where
  "split_at c [] = [[]]"
| "split_at c (x # xs) =
     (if x = c then [] # split_at c xs
      else (case split_at c xs of
              [] \<Rightarrow> [[x]]
            | w # ws \<Rightarrow> (x # w) # ws))"

fun nested_set ::
  "string list \<Rightarrow> json \<Rightarrow> (string \<times> json) list \<Rightarrow> js_error + (string \<times> json) list" where
  "nested_set [] v object = Inr object"
| "nested_set [piece] v object = Inr (obj_set piece v object)"
| "nested_set (piece # pieces) v object =
     (case map_of object piece of
        None \<Rightarrow>
          (case nested_set pieces v [] of
             Inl err \<Rightarrow> Inl err
           | Inr child \<Rightarrow> Inr (obj_set piece (JsonObj child) object))
      | Some (JsonObj current) \<Rightarrow>
          (case nested_set pieces v current of
             Inl err \<Rightarrow> Inl err
           | Inr child \<Rightarrow> Inr (obj_set piece (JsonObj child) object))
      | Some other \<Rightarrow>
          Inl (JsError ''Error'' (''Target key '' @ piece @ '' is not suitable for a nested value.'')
                 None))"

definition meta_set :: "meta \<Rightarrow> string \<Rightarrow> json \<Rightarrow> js_error + meta" where
  "meta_set sm key v =
     (case split_at CHR ''.'' key of
        attr # piece # pieces \<Rightarrow>
          (if attr = ''data''
           then (case nested_set (piece # pieces) v (data sm) of
                   Inl err \<Rightarrow> Inl err
                 | Inr d \<Rightarrow> Inr (sm\<lparr>data := d\<rparr>))
           else Inr sm)
      | other \<Rightarrow> Inr sm)"

definition save :: "meta \<Rightarrow> sqlize \<Rightarrow> sqlize" where
  "save sm s = s\<lparr>system_meta := obj_set (meta_name sm) (data sm) (system_meta s)\<rparr>"

definition setVersion :: "env \<Rightarrow> string \<Rightarrow> json \<Rightarrow> sqlize \<Rightarrow> (js_error + meta) \<times> sqlize" where
  "setVersion e modelName version s =
     (case getSystemMeta e ''versions'' s of
        (Inl err, s1) \<Rightarrow> (Inl err, s1)
      | (Inr sm, s1) \<Rightarrow>
          (let path = join ''.'' [''data'', modelName]
           in case meta_set sm path version of
                Inl err \<Rightarrow> (Inl err, s1)
              | Inr sm' \<Rightarrow> (Inr sm', save sm' s1)))"

section \<open>Concrete inputs\<close>

definition example_id :: descriptor where
  "example_id = \<lparr>field = JStr ''id'', autoGenerated = None, type = Some (OTHER ''INTEGER''),
      allowNull = Some False, unique = JBool True\<rparr>"

definition default_options :: options where
  "default_options = \<lparr>timestamps = JBool True, createdAt = JUndefined,
      updatedAt = JUndefined, deletedAt = JUndefined\<rparr>"

definition attribute :: "string \<Rightarrow> jsval \<Rightarrow> descriptor" where
  "attribute column marker = \<lparr>field = JStr column, autoGenerated = None,
      type = Some (OTHER ''STRING''), allowNull = None, unique = marker\<rparr>"

definition example_env :: env where
  "example_env = \<lparr>dialect = ''postgres'', pkg_name = ''sync'',
      pkg_engines = Some [(''postgres'', ''>=9.6'')], isProduction = False,
      authenticate = None, databaseVersion = Inr ''12.3'',
      satisfies = (\<lambda>version required. version = ''12.3''),
      umzug_reports = [], umzug_up = None, umzug_executed = Inr [],
      super_model = (\<lambda>name. Inr None),
      super_query = (\<lambda>q. Inl (JsError ''SequelizeDatabaseError'' ''syntax error'' (Some q))),
      parseISO = (\<lambda>str. if str = ''1970-01-02T00:00:00.000Z'' then Date 86400000
                          else InvalidDate)\<rparr>"

definition example_db :: sqlize where
  "example_db = \<lparr>models = Some [(''SystemMeta'', ModelClass ''SystemMeta'')],
      dollar_sequelize = None, logged = [], emitted = [], system_meta = []\<rparr>"

definition example_save :: "unit \<Rightarrow> js_error + rvalue" where
  "example_save args = Inr (Obj 0 True True)"

definition example_count :: "unit \<Rightarrow> js_error + rvalue" where
  "example_count args = Inr (Prim (JStr ''3''))"

definition example_ctor :: "unit ctor" where
  "example_ctor = \<lparr>prototype = [(''constructor'', Method example_count),
                                  (''save'', Method example_save),
                                  (''id'', Accessor)],
                    statics = [(''count'', Method example_count),
                               (''prototype'', Data (Obj 1 False False))]\<rparr>"

definition old_engine_env :: env where
  "old_engine_env = example_env\<lparr>databaseVersion := Inr ''9.4''\<rparr>"

definition migrated_env :: env where
  "migrated_env = example_env
     \<lparr>umzug_reports := [Logging ''== 001-init: migrating ======='', Migrating ''001-init'',
                         Logging ''== 001-init: migrated (0.021s)'', Migrated ''001-init''],
      umzug_executed := Inr [\<lparr>migration_file = ''001-init.js''\<rparr>]\<rparr>"

text \<open>A timestamp string: the second day of the epoch.\<close>

definition day_two :: string where
  "day_two = ''1970-01-02T00:00:00.000Z''"

section \<open>Properties of objects\<close>

lemma obj_set_fresh:
  "k \<notin> fst ` set kvs \<Longrightarrow> k \<noteq> ''__proto__'' \<Longrightarrow> obj_set k v kvs = kvs @ [(k, v)]"
  by (induction kvs) auto

lemma map_of_obj_set:
  "k \<noteq> ''__proto__'' \<Longrightarrow> map_of (obj_set k v kvs) = (map_of kvs)(k \<mapsto> v)"
  by (induction kvs) (auto simp: fun_eq_iff)

lemma keys_obj_set:
  "k \<noteq> ''__proto__'' \<Longrightarrow>
   map fst (obj_set k v kvs) =
     (if k \<in> set (map fst kvs) then map fst kvs else map fst kvs @ [k])"
  by (induction kvs) (force+)

lemma object_assign_Nil [simp]: "object_assign t [] = t"
  by (simp add: object_assign_def)

lemma object_assign_Cons [simp]:
  "object_assign t ((k, v) # s) = object_assign (obj_set k v t) s"
  by (simp add: object_assign_def)

lemma object_assign_fresh:
  "distinct (map fst s) \<Longrightarrow> set (map fst t) \<inter> set (map fst s) = {} \<Longrightarrow>
   ''__proto__'' \<notin> set (map fst s) \<Longrightarrow> object_assign t s = t @ s"
proof (induction s arbitrary: t)
  case Nil
  then show ?case by simp
next
  case (Cons a s)
  obtain k v where a: "a = (k, v)" by (cases a)
  from Cons.prems have fresh: "k \<notin> fst ` set t" and k: "k \<noteq> ''__proto__''"
    by (auto simp: a)
  have "object_assign (t @ [(k, v)]) s = (t @ [(k, v)]) @ s"
    using Cons.prems by (intro Cons.IH) (auto simp: a)
  then show ?case by (simp add: a obj_set_fresh [OF fresh k])
qed

lemma object_assign_copy:
  "distinct (map fst s) \<Longrightarrow> ''__proto__'' \<notin> set (map fst s) \<Longrightarrow> object_assign [] s = s"
  using object_assign_fresh [of s "[]"] by simp

lemma map_of_object_assign:
  "distinct (map fst s) \<Longrightarrow> ''__proto__'' \<notin> set (map fst s) \<Longrightarrow>
   map_of (object_assign t s) k =
     (case map_of s k of Some d \<Rightarrow> Some d | None \<Rightarrow> map_of t k)"
proof (induction s arbitrary: t)
  case Nil
  then show ?case by simp
next
  case (Cons a s)
  obtain k' v where a: "a = (k', v)" by (cases a)
  from Cons.prems have d: "distinct (map fst s)" and nin: "k' \<notin> fst ` set s"
    and p: "''__proto__'' \<notin> set (map fst s)" and k': "k' \<noteq> ''__proto__''"
    by (auto simp: a)
  have "map_of s k' = None" using nin by (simp add: map_of_eq_None_iff)
  then show ?case using Cons.IH [OF d p, of "obj_set k' v t"]
    by (auto simp: a map_of_obj_set [OF k'] split: option.splits)
qed

lemma keys_object_assign:
  "distinct (map fst s) \<Longrightarrow> ''__proto__'' \<notin> set (map fst s) \<Longrightarrow>
   map fst (object_assign t s) =
     map fst t @ filter (\<lambda>k. k \<notin> set (map fst t)) (map fst s)"
proof (induction s arbitrary: t)
  case Nil
  then show ?case by simp
next
  case (Cons a s)
  obtain k' v where a: "a = (k', v)" by (cases a)
  from Cons.prems have d: "distinct (map fst s)" and nin: "k' \<notin> set (map fst s)"
    and p: "''__proto__'' \<notin> set (map fst s)" and k': "k' \<noteq> ''__proto__''"
    by (auto simp: a)
  have *: "filter (\<lambda>k. k \<noteq> k' \<and> P k) (map fst s) = filter P (map fst s)" for P
    using nin by (induction s) auto
  show ?case using Cons.IH [OF d p, of "obj_set k' v t"] nin
    by (auto simp: a keys_obj_set [OF k'] * cong: filter_cong)
qed

section \<open>Default fields\<close>

lemma addTimestamps_assigns:
  "addTimestamps flds options =
     object_assign (object_assign [] flds) (synthetic_fields options)"
  by (simp add: addTimestamps_def synthetic_fields_def synthetic_field_def Let_def)

lemma synthetic_fields_names:
  "distinct (map fst (synthetic_fields options)) \<and>
   ''__proto__'' \<notin> set (map fst (synthetic_fields options))"
  by (simp add: synthetic_fields_def)

text \<open>
  Claim C4, as amended. For every field mapping (an object, so its names are distinct)
  without an own field named \<^verbatim>\<open>__proto__\<close> (which \<^verbatim>\<open>Object.assign\<close> does not copy) and
  every options record: when \<^verbatim>\<open>timestamps\<close> is truthy, the result lists the
  original names in their order, followed by the names of the enabled synthetic fields
  that no original field has; every enabled synthetic name maps to its synthetic
  descriptor (\<^verbatim>\<open>createdAt\<close> and \<^verbatim>\<open>updatedAt\<close> non-nullable dates, \<^verbatim>\<open>deletedAt\<close> a date
  without the restriction, each marked generated) and every other name keeps its
  original descriptor; so when no original field bears the name of an enabled synthetic
  field the result is the original fields followed by exactly the enabled synthetic
  fields. When \<^verbatim>\<open>timestamps\<close> is \<^verbatim>\<open>false\<close> (or otherwise falsy) the result is the
  input. The same holds through the defaulting of \<^verbatim>\<open>define\<close>, under which
  \<^verbatim>\<open>timestamps\<close> is enabled exactly when it is not \<^verbatim>\<open>false\<close>.
\<close>

theorem addDefaultFields_merges:
  assumes "distinct (map fst flds)" and "''__proto__'' \<notin> set (map fst flds)"
  shows "(truthy (timestamps options) \<longrightarrow>
            map fst (addDefaultFields flds options) =
              map fst flds @
              filter (\<lambda>k. k \<notin> set (map fst flds)) (map fst (synthetic_fields options)) \<and>
            (\<forall>k. map_of (addDefaultFields flds options) k =
              (case map_of (synthetic_fields options) k of
                 Some d \<Rightarrow> Some d | None \<Rightarrow> map_of flds k)) \<and>
            (set (map fst flds) \<inter> set (map fst (synthetic_fields options)) = {} \<longrightarrow>
               addDefaultFields flds options = flds @ synthetic_fields options)) \<and>
         (\<not> truthy (timestamps options) \<longrightarrow> addDefaultFields flds options = flds) \<and>
         (timestamps options = JBool False \<longrightarrow>
            addDefaultFields flds (define_options options) = flds) \<and>
         (timestamps options \<noteq> JBool False \<longrightarrow>
          set (map fst flds) \<inter> set (map fst (synthetic_fields options)) = {} \<longrightarrow>
            addDefaultFields flds (define_options options) = flds @ synthetic_fields options)"
proof -
  have names: "distinct (map fst (synthetic_fields opts))"
    "''__proto__'' \<notin> set (map fst (synthetic_fields opts))" for opts
    using synthetic_fields_names [of opts] by simp_all
  have merged: "addTimestamps flds opts = object_assign flds (synthetic_fields opts)" for opts
    by (simp add: addTimestamps_assigns object_assign_copy [OF assms])
  have keys: "map fst (addTimestamps flds opts) =
      map fst flds @ filter (\<lambda>k. k \<notin> set (map fst flds)) (map fst (synthetic_fields opts))"
    for opts
    by (simp only: merged keys_object_assign [OF names])
  have vals: "map_of (addTimestamps flds opts) k =
      (case map_of (synthetic_fields opts) k of Some d \<Rightarrow> Some d | None \<Rightarrow> map_of flds k)"
    for opts k
    by (simp only: merged map_of_object_assign [OF names])
  have fresh: "addTimestamps flds opts = flds @ synthetic_fields opts"
    if "set (map fst flds) \<inter> set (map fst (synthetic_fields opts)) = {}" for opts
    by (simp only: merged object_assign_fresh [OF names(1) that names(2)])
  have same: "synthetic_fields (define_options options) = synthetic_fields options"
    by (simp add: synthetic_fields_def define_options_def)
  have on: "timestamps options \<noteq> JBool False \<Longrightarrow> truthy (timestamps (define_options options))"
    by (simp add: define_options_def)
  have off: "timestamps options = JBool False \<Longrightarrow>
      \<not> truthy (timestamps (define_options options))"
    by (simp add: define_options_def)
  show ?thesis
    using keys [of options] vals [of options] fresh [of options]
      fresh [of "define_options options"] same on off
    by (simp add: addDefaultFields_def)
qed

theorem addDefaultFields_merges_witness:
  "distinct (map fst [(''id'', example_id)]) \<and>
   ''__proto__'' \<notin> set (map fst [(''id'', example_id)]) \<and>
   truthy (timestamps default_options) \<and>
   addDefaultFields [(''id'', example_id)] default_options =
     [(''id'', example_id),
      (''createdAt'', synthetic_field JUndefined ''created_at'' (Some False)),
      (''updatedAt'', synthetic_field JUndefined ''updated_at'' (Some False)),
      (''deletedAt'', synthetic_field JUndefined ''deleted_at'' None)] \<and>
   \<not> truthy (timestamps (default_options\<lparr>timestamps := JBool False\<rparr>)) \<and>
   addDefaultFields [(''id'', example_id)] (default_options\<lparr>timestamps := JBool False\<rparr>) =
     [(''id'', example_id)]"
  using addDefaultFields_merges [of "[(''id'', example_id)]" default_options]
    addDefaultFields_merges [of "[(''id'', example_id)]"
      "default_options\<lparr>timestamps := JBool False\<rparr>"]
  by (simp add: default_options_def synthetic_fields_def)

theorem addDefaultFields_appends_counterexample:
  "addDefaultFields [(''createdAt'', example_id)] default_options \<noteq>
     [(''createdAt'', example_id)] @ synthetic_fields default_options \<and>
   (''createdAt'', example_id) \<notin>
     set (addDefaultFields [(''createdAt'', example_id)] default_options) \<and>
   addDefaultFields [(''createdAt'', example_id)] default_options =
     synthetic_fields default_options"
  by (simp add: addDefaultFields_def addTimestamps_def synthetic_fields_def synthetic_field_def
      default_options_def example_id_def js_or_def)

lemma addDefaultFields_drops_proto:
  "addDefaultFields [(''__proto__'', example_id)] default_options =
     synthetic_fields default_options"
  by (simp add: addDefaultFields_def addTimestamps_def synthetic_fields_def synthetic_field_def
      default_options_def js_or_def)

section \<open>Method wrapping\<close>

lemma normalized_alt: "normalized object = map (\<lambda>(key, p). (key, normalize1 key p)) object"
  by (simp add: normalized_def normalize1_def)

lemma obj_set_present:
  "distinct (map fst kvs) \<Longrightarrow> key \<in> set (map fst kvs) \<Longrightarrow>
   obj_set key v kvs = map (\<lambda>(k, p). if k = key then (k, v) else (k, p)) kvs"
proof (induction kvs)
  case Nil
  then show ?case by simp
next
  case (Cons a kvs)
  obtain k p where a: "a = (k, p)" by (cases a)
  show ?case
  proof (cases "k = key")
    case True
    with Cons.prems have "key \<notin> fst ` set kvs" by (auto simp: a)
    then have "map (\<lambda>(k, p). if k = key then (k, v) else (k, p)) kvs = kvs"
      by (induction kvs) auto
    with True show ?thesis by (simp add: a)
  next
    case False
    with Cons show ?thesis by (auto simp: a)
  qed
qed

lemma wrapMethod_present:
  assumes "distinct (map fst object)" and "key \<in> set (map fst object)"
  shows "wrapMethod object key =
     Inr (map (\<lambda>(k, p). if k = key then (k, normalize1 k p) else (k, p)) object)"
proof -
  from assms(2) obtain p where p: "map_of object key = Some p"
    by (cases "map_of object key") (auto simp: map_of_eq_None_iff)
  have only: "q = p" if "(key, q) \<in> set object" for q
    using that p assms(1) by (simp add: map_of_eq_Some_iff)
  have unchanged: "map (\<lambda>(k, q). if k = key then (k, p) else (k, q)) object = object"
    by (rule map_idI) (auto dest: only)
  have same: "map (\<lambda>(k, q). if k = key then (k, normalize1 k q) else (k, q)) object =
      map (\<lambda>(k, q). if k = key then (k, normalize1 key p) else (k, q)) object"
    by (rule map_cong) (auto dest: only)
  have noop: "obj_set key p object = object"
    using obj_set_present [OF assms, of p] unchanged by simp
  have "wrapMethod object key = Inr (obj_set key (normalize1 key p) object)"
    using p noop by (cases p) (auto simp: wrapMethod_def normalize1_def)
  also have "obj_set key (normalize1 key p) object =
      map (\<lambda>(k, q). if k = key then (k, normalize1 key p) else (k, q)) object"
    by (rule obj_set_present [OF assms])
  finally show ?thesis by (simp only: same)
qed

lemma forEach_wrapMethod_keys:
  "distinct (map fst object) \<Longrightarrow> distinct keys \<Longrightarrow> set keys \<subseteq> set (map fst object) \<Longrightarrow>
   forEach_wrapMethod keys object =
     Inr (map (\<lambda>(k, p). if k \<in> set keys then (k, normalize1 k p) else (k, p)) object)"
proof (induction keys arbitrary: object)
  case Nil
  then show ?case by simp
next
  case (Cons key keys)
  let ?object' = "map (\<lambda>(k, p). if k = key then (k, normalize1 k p) else (k, p)) object"
  have step: "wrapMethod object key = Inr ?object'"
    using Cons.prems by (intro wrapMethod_present) auto
  have keys': "map fst ?object' = map fst object"
    by (induction object) auto
  have d': "distinct (map fst ?object')" and sub': "set keys \<subseteq> set (map fst ?object')"
    unfolding keys' using Cons.prems by auto
  have "forEach_wrapMethod keys ?object' =
      Inr (map (\<lambda>(k, p). if k \<in> set keys then (k, normalize1 k p) else (k, p)) ?object')"
    using Cons.prems(2) by (intro Cons.IH d' sub') simp
  moreover have "map (\<lambda>(k, p). if k \<in> set keys then (k, normalize1 k p) else (k, p)) ?object' =
      map (\<lambda>(k, p). if k \<in> set (key # keys) then (k, normalize1 k p) else (k, p)) object"
    using Cons.prems(2) by (induction object) auto
  ultimately show ?case by (simp add: step)
qed

lemma forEach_wrapMethod_own:
  "distinct (map fst object) \<Longrightarrow>
   forEach_wrapMethod (map fst object) object = Inr (normalized object)"
proof -
  assume d: "distinct (map fst object)"
  have "map (\<lambda>(k, p). if k \<in> set (map fst object) then (k, normalize1 k p) else (k, p)) object =
      map (\<lambda>(k, p). (k, normalize1 k p)) object"
    by (rule map_cong) force+
  then show ?thesis
    using forEach_wrapMethod_keys [OF d d] by (simp add: normalized_alt)
qed

lemma wrapCtor_normalized:
  "distinct (map fst (prototype Ctor)) \<Longrightarrow> distinct (map fst (statics Ctor)) \<Longrightarrow>
   wrapCtor Ctor =
     Inr \<lparr>prototype = normalized (prototype Ctor), statics = normalized (statics Ctor)\<rparr>"
  by (simp add: wrapCtor_def forEach_wrapMethod_own)

lemma wrapMethods_chain:
  "\<forall>Ctor \<in> set chain. distinct (map fst (prototype Ctor)) \<and> distinct (map fst (statics Ctor)) \<Longrightarrow>
   wrapMethods chain =
     Inr (map (\<lambda>Ctor. \<lparr>prototype = normalized (prototype Ctor),
                         statics = normalized (statics Ctor)\<rparr>) chain)"
  by (induction chain) (simp_all add: wrapCtor_normalized)

lemma map_of_normalized:
  "map_of (normalized object) key = map_option (normalize1 key) (map_of object key)"
  by (induction object) (auto simp: normalized_alt)

text \<open>
  Claim C10, as amended. \<^verbatim>\<open>wrapMethods\<close> replaces every own method, instance and
  static, of every class of the chain except \<^verbatim>\<open>constructor\<close> by its wrapper. Invoking a
  wrapped method propagates a synchronous throw unchanged; it returns the original
  result unchanged when the result is falsy or has no function-valued \<^verbatim>\<open>catch\<close>
  property, and returns the result coerced through \<^verbatim>\<open>Promise.resolve\<close> of the
  canonical promise class when the result is truthy and has a function-valued
  \<^verbatim>\<open>catch\<close>. The test is on \<^verbatim>\<open>catch\<close>, not on \<^verbatim>\<open>then\<close>: primitives are returned
  unchanged and canonical promises stay what they are, but a thenable without
  \<^verbatim>\<open>catch\<close> is not coerced and a non-thenable object with \<^verbatim>\<open>catch\<close> is.
\<close>

theorem wrapMethods_normalizes:
  fixes chain :: "'a ctor list"
  assumes "\<forall>Ctor \<in> set chain.
             distinct (map fst (prototype Ctor)) \<and> distinct (map fst (statics Ctor))"
  shows "wrapMethods chain =
           Inr (map (\<lambda>Ctor. \<lparr>prototype = normalized (prototype Ctor),
                               statics = normalized (statics Ctor)\<rparr>) chain) \<and>
         (\<forall>object key (f :: 'a \<Rightarrow> js_error + rvalue).
            key \<noteq> ''constructor'' \<and> map_of object key = Some (Method f) \<longrightarrow>
            map_of (normalized object) key = Some (Method (wrapped f))) \<and>
         (\<forall>(f :: 'a \<Rightarrow> js_error + rvalue) args err.
            f args = Inl err \<longrightarrow> wrapped f args = Inl err) \<and>
         (\<forall>(f :: 'a \<Rightarrow> js_error + rvalue) args result.
            f args = Inr result \<and> \<not> (truthy_result result \<and> catch_isFunction result) \<longrightarrow>
            wrapped f args = Inr result) \<and>
         (\<forall>(f :: 'a \<Rightarrow> js_error + rvalue) args result.
            f args = Inr result \<and> truthy_result result \<and> catch_isFunction result \<longrightarrow>
            wrapped f args = Inr (Promise_resolve result)) \<and>
         (\<forall>(f :: 'a \<Rightarrow> js_error + rvalue) args v.
            f args = Inr (Prim v) \<longrightarrow> wrapped f args = Inr (Prim v)) \<and>
         (\<forall>(f :: 'a \<Rightarrow> js_error + rvalue) args r.
            f args = Inr (Canonical r) \<longrightarrow> wrapped f args = Inr (Canonical r))"
  using wrapMethods_chain [OF assms]
  by (auto simp: wrapped_def map_of_normalized normalize1_def)

theorem wrapMethods_normalizes_witness:
  "distinct (map fst (prototype example_ctor)) \<and>
   distinct (map fst (statics example_ctor)) \<and>
   wrapMethods [example_ctor] =
     Inr [\<lparr>prototype = [(''constructor'', Method example_count),
                        (''save'', Method (wrapped example_save)),
                        (''id'', Accessor)],
           statics = [(''count'', Method (wrapped example_count)),
                      (''prototype'', Data (Obj 1 False False))]\<rparr>] \<and>
   wrapped example_save () = Inr (Canonical (Obj 0 True True)) \<and>
   wrapped example_count () = Inr (Prim (JStr ''3''))"
proof -
  have h: "\<forall>Ctor \<in> set [example_ctor].
      distinct (map fst (prototype Ctor)) \<and> distinct (map fst (statics Ctor))"
    by (simp add: example_ctor_def)
  have r: "example_save () = Inr (Obj 0 True True)" "example_count () = Inr (Prim (JStr ''3''))"
    by (simp_all add: example_save_def example_count_def)
  note all = wrapMethods_normalizes [OF h]
  from all have chain: "wrapMethods [example_ctor] =
      Inr (map (\<lambda>Ctor. \<lparr>prototype = normalized (prototype Ctor),
                          statics = normalized (statics Ctor)\<rparr>) [example_ctor])"
    by (rule conjunct1)
  from all have coerced: "f args = Inr result \<and> truthy_result result \<and> catch_isFunction result \<longrightarrow>
      wrapped f args = Inr (Promise_resolve result)" for f :: "unit \<Rightarrow> js_error + rvalue" and args result
    by blast
  from all have plain: "f args = Inr (Prim v) \<longrightarrow> wrapped f args = Inr (Prim v)"
    for f :: "unit \<Rightarrow> js_error + rvalue" and args v
    by blast
  have "wrapped example_save () = Inr (Canonical (Obj 0 True True))"
    using coerced [of example_save "()" "Obj 0 True True"] r by simp
  moreover have "wrapped example_count () = Inr (Prim (JStr ''3''))"
    using plain [of example_count "()" "JStr ''3''"] r by simp
  ultimately show ?thesis using chain h
    by (simp add: example_ctor_def normalized_def)
qed

theorem wrapped_thenable_counterexample:
  "thenable (Obj 0 True False) \<and>
   wrapped (\<lambda>args :: unit. Inr (Obj 0 True False)) () = Inr (Obj 0 True False) \<and>
   Promise_resolve (Obj 0 True False) \<noteq> Obj 0 True False \<and>
   \<not> thenable (Obj 1 False True) \<and>
   wrapped (\<lambda>args :: unit. Inr (Obj 1 False True)) () = Inr (Canonical (Obj 1 False True))"
  by (simp add: wrapped_def)

section \<open>Query errors and the engine-version check\<close>

text \<open>
  Claim C5. When the underlying execution rejects with an error, \<^verbatim>\<open>query\<close> rejects with
  that same error, and on the way emits exactly one \<^verbatim>\<open>"error"\<close> event on the
  connection manager, carrying that error, after logging it (with the offending SQL
  text when the error has one); nothing else of the manager changes. When the
  underlying execution resolves, its result is passed through and the manager is
  unchanged.
\<close>

theorem query_reemits:
  "(\<forall>err. super_query e sqlText = Inl err \<longrightarrow>
      fst (query e sqlText s) = Inl err \<and>
      emitted (snd (query e sqlText s)) = emitted s @ [(''error'', err)] \<and>
      length (filter (\<lambda>ev. fst ev = ''error'') (emitted (snd (query e sqlText s)))) =
        Suc (length (filter (\<lambda>ev. fst ev = ''error'') (emitted s))) \<and>
      logged (snd (query e sqlText s)) =
        logged s @
        [(ERROR,
          CtxErr err (case sql err of None \<Rightarrow> None
                      | Some q \<Rightarrow> if q \<noteq> [] then Some q else None),
          [''Database error:'', message err])] \<and>
      models (snd (query e sqlText s)) = models s \<and>
      system_meta (snd (query e sqlText s)) = system_meta s) \<and>
   (\<forall>rows. super_query e sqlText = Inr rows \<longrightarrow> query e sqlText s = (Inr rows, s))"
  by (simp add: query_def logger_def emit_def Let_def)

theorem query_reemits_witness:
  "super_query example_env ''SELEC 1'' =
     Inl (JsError ''SequelizeDatabaseError'' ''syntax error'' (Some ''SELEC 1'')) \<and>
   fst (query example_env ''SELEC 1'' example_db) =
     Inl (JsError ''SequelizeDatabaseError'' ''syntax error'' (Some ''SELEC 1'')) \<and>
   emitted (snd (query example_env ''SELEC 1'' example_db)) =
     [(''error'', JsError ''SequelizeDatabaseError'' ''syntax error'' (Some ''SELEC 1''))] \<and>
   super_query (example_env\<lparr>super_query := \<lambda>q. Inr [JStr ''1'']\<rparr>) ''SELECT 1'' = Inr [JStr ''1''] \<and>
   query (example_env\<lparr>super_query := \<lambda>q. Inr [JStr ''1'']\<rparr>) ''SELECT 1'' example_db =
     (Inr [JStr ''1''], example_db)"
proof -
  have rejected: "super_query example_env ''SELEC 1'' =
      Inl (JsError ''SequelizeDatabaseError'' ''syntax error'' (Some ''SELEC 1''))"
    by (simp add: example_env_def)
  have resolved: "super_query (example_env\<lparr>super_query := \<lambda>q. Inr [JStr ''1'']\<rparr>) ''SELECT 1'' =
      Inr [JStr ''1'']"
    by simp
  have em: "emitted example_db = []" by (simp add: example_db_def)
  from query_reemits [of example_env "''SELEC 1''" example_db] rejected em
  have "fst (query example_env ''SELEC 1'' example_db) =
      Inl (JsError ''SequelizeDatabaseError'' ''syntax error'' (Some ''SELEC 1'')) \<and>
    emitted (snd (query example_env ''SELEC 1'' example_db)) =
      [(''error'', JsError ''SequelizeDatabaseError'' ''syntax error'' (Some ''SELEC 1''))]"
    by simp
  moreover from query_reemits [of "example_env\<lparr>super_query := \<lambda>q. Inr [JStr ''1'']\<rparr>"
      "''SELECT 1''" example_db] resolved
  have "query (example_env\<lparr>super_query := \<lambda>q. Inr [JStr ''1'']\<rparr>) ''SELECT 1'' example_db =
      (Inr [JStr ''1''], example_db)"
    by simp
  ultimately show ?thesis using rejected resolved by simp
qed

lemma engines_range_recorded:
  "pkg_engines e = Some engines \<Longrightarrow> map_of engines (dialect e) = Some required \<Longrightarrow>
   engines_range e = JStr required"
  by (simp add: engines_range_def)

lemma requires_message_names:
  "sublist required (requires_message name dia required) \<and>
   sublist dia (requires_message name dia required)"
proof
  have "requires_message name dia required =
      ([CHR 0x22] @ name @ [CHR 0x22] @ '' requires '' @ dia @ '' '') @ required @ []"
    by (simp add: requires_message_def)
  then show "sublist required (requires_message name dia required)"
    by (simp only: sublist_appendI)
  have "requires_message name dia required =
      ([CHR 0x22] @ name @ [CHR 0x22] @ '' requires '') @ dia @ ('' '' @ required)"
    by (simp add: requires_message_def)
  then show "sublist dia (requires_message name dia required)"
    by (simp only: sublist_appendI)
qed

text \<open>
  Claim C6. Let a non-empty required range be recorded in the package descriptor for
  the active dialect and let the engine report a version. When the version is outside
  the range, \<^verbatim>\<open>checkDatabaseVersion\<close> rejects with an error whose message contains
  both the range and the dialect, having logged the version and then the error, and
  \<^verbatim>\<open>initialize\<close> rejects with that error once authenticated. When the version is
  inside the range, the check completes without error, logging the version only.
\<close>

theorem checkDatabaseVersion_enforces_range:
  assumes "databaseVersion e = Inr version"
    and "pkg_engines e = Some engines"
    and "map_of engines (dialect e) = Some required"
    and "required \<noteq> []"
  shows "(\<not> satisfies e version required \<longrightarrow>
           (\<exists>err. fst (checkDatabaseVersion e s) = Inl err \<and>
              message err = requires_message (pkg_name e) (dialect e) required \<and>
              sublist required (message err) \<and> sublist (dialect e) (message err) \<and>
              logged (snd (checkDatabaseVersion e s)) =
                logged s @
                [(INFO, CtxVersion version, [dialect e @ '' version:'', version]),
                 (ERROR, CtxRequired version required, [message err])] \<and>
              (authenticate e = None \<longrightarrow> fst (initialize e otherDb s) = Inl err))) \<and>
         (satisfies e version required \<longrightarrow>
            fst (checkDatabaseVersion e s) = Inr This \<and>
            logged (snd (checkDatabaseVersion e s)) =
              logged s @ [(INFO, CtxVersion version, [dialect e @ '' version:'', version])])"
proof -
  have r: "engines_range e = JStr required"
    using assms(2,3) by (rule engines_range_recorded)
  have check: "checkDatabaseVersion e s' =
      (if satisfies e version required
       then (Inr This, logger INFO (CtxVersion version) [dialect e @ '' version:'', version] s')
       else (Inl (JsError ''Error'' (requires_message (pkg_name e) (dialect e) required) None),
             logger ERROR (CtxRequired version required)
               [requires_message (pkg_name e) (dialect e) required]
               (logger INFO (CtxVersion version) [dialect e @ '' version:'', version] s')))" for s'
    using assms(1,4) by (simp add: checkDatabaseVersion_def r Let_def)
  show ?thesis
    using requires_message_names [of required "pkg_name e" "dialect e"]
    by (simp add: check logger_def initialize_def Let_def)
qed

theorem checkDatabaseVersion_enforces_range_witness:
  "databaseVersion old_engine_env = Inr ''9.4'' \<and>
   pkg_engines old_engine_env = Some [(''postgres'', ''>=9.6'')] \<and>
   map_of [(''postgres'', ''>=9.6'')] (dialect old_engine_env) = Some ''>=9.6'' \<and>
   ''>=9.6'' \<noteq> [] \<and>
   \<not> satisfies old_engine_env ''9.4'' ''>=9.6'' \<and>
   fst (checkDatabaseVersion old_engine_env example_db) =
     Inl (JsError ''Error'' ([CHR 0x22] @ ''sync'' @ [CHR 0x22] @ '' requires postgres >=9.6'') None) \<and>
   fst (initialize old_engine_env None example_db) =
     Inl (JsError ''Error'' ([CHR 0x22] @ ''sync'' @ [CHR 0x22] @ '' requires postgres >=9.6'') None) \<and>
   databaseVersion example_env = Inr ''12.3'' \<and>
   pkg_engines example_env = Some [(''postgres'', ''>=9.6'')] \<and>
   map_of [(''postgres'', ''>=9.6'')] (dialect example_env) = Some ''>=9.6'' \<and>
   satisfies example_env ''12.3'' ''>=9.6'' \<and>
   fst (checkDatabaseVersion example_env example_db) = Inr This"
proof -
  have old: "databaseVersion old_engine_env = Inr ''9.4''"
    "pkg_engines old_engine_env = Some [(''postgres'', ''>=9.6'')]"
    "map_of [(''postgres'', ''>=9.6'')] (dialect old_engine_env) = Some ''>=9.6''"
    "\<not> satisfies old_engine_env ''9.4'' ''>=9.6''"
    "authenticate old_engine_env = None"
    "pkg_name old_engine_env = ''sync''" "dialect old_engine_env = ''postgres''"
    by (simp_all add: old_engine_env_def example_env_def)
  have new: "databaseVersion example_env = Inr ''12.3''"
    "pkg_engines example_env = Some [(''postgres'', ''>=9.6'')]"
    "map_of [(''postgres'', ''>=9.6'')] (dialect example_env) = Some ''>=9.6''"
    "satisfies example_env ''12.3'' ''>=9.6''"
    by (simp_all add: example_env_def)
  have ne: "''>=9.6'' \<noteq> []" by simp
  from checkDatabaseVersion_enforces_range [OF old(1) old(2) old(3) ne, of example_db None] old(4,5)
  obtain err where err: "fst (checkDatabaseVersion old_engine_env example_db) = Inl err"
      "message err = requires_message (pkg_name old_engine_env) (dialect old_engine_env) ''>=9.6''"
      "fst (initialize old_engine_env None example_db) = Inl err"
    by auto
  have "fst (checkDatabaseVersion old_engine_env example_db) =
      Inl (JsError ''Error'' ([CHR 0x22] @ ''sync'' @ [CHR 0x22] @ '' requires postgres >=9.6'') None)"
    by (simp add: checkDatabaseVersion_def engines_range_def requires_message_def logger_def
        old_engine_env_def example_env_def)
  with err have "fst (initialize old_engine_env None example_db) =
      Inl (JsError ''Error'' ([CHR 0x22] @ ''sync'' @ [CHR 0x22] @ '' requires postgres >=9.6'') None)"
    and "fst (checkDatabaseVersion old_engine_env example_db) =
      Inl (JsError ''Error'' ([CHR 0x22] @ ''sync'' @ [CHR 0x22] @ '' requires postgres >=9.6'') None)"
    by simp_all
  moreover from checkDatabaseVersion_enforces_range [OF new(1) new(2) new(3) ne, of example_db None] new(4)
  have "fst (checkDatabaseVersion example_env example_db) = Inr This"
    by simp
  ultimately show ?thesis using old new by simp
qed

section \<open>Initialization and meta-seeding\<close>

lemma initialize_example_check:
  "checkDatabaseVersion example_env s =
     (Inr This, logger INFO (CtxVersion ''12.3'') [''postgres version:'', ''12.3''] s)"
  "checkDatabaseVersion migrated_env s =
     (Inr This, logger INFO (CtxVersion ''12.3'') [''postgres version:'', ''12.3''] s)"
  by (simp_all add: checkDatabaseVersion_def engines_range_def example_env_def migrated_env_def)

lemma migrate_example:
  "migrate example_env s = (Inr [], s)"
  "migrate migrated_env s =
     (Inr [\<lparr>migration_file = ''001-init.js''\<rparr>],
      logger INFO (CtxMigration ''001-init'') [''Migrated:'', ''001-init'']
        (logger INFO (CtxMigration ''001-init'') [''Migrating:'', ''001-init''] s))"
  by (simp_all add: migrate_def umzug_handler_def example_env_def migrated_env_def)

lemma checkDatabaseVersion_frame:
  "system_meta (snd (checkDatabaseVersion e s)) = system_meta s \<and>
   models (snd (checkDatabaseVersion e s)) = models s"
  by (simp add: checkDatabaseVersion_def logger_def Let_def split: sum.splits)

lemma umzug_handler_frame:
  "system_meta (umzug_handler report s) = system_meta s \<and>
   models (umzug_handler report s) = models s"
  by (cases report) (simp_all add: umzug_handler_def logger_def)

lemma umzug_reports_frame:
  "system_meta (foldl (\<lambda>s' report. umzug_handler report s') s reports) = system_meta s \<and>
   models (foldl (\<lambda>s' report. umzug_handler report s') s reports) = models s"
  by (induction reports arbitrary: s) (simp_all add: umzug_handler_frame)

lemma migrate_frame:
  "system_meta (snd (migrate e s)) = system_meta s \<and> models (snd (migrate e s)) = models s"
  by (simp add: migrate_def umzug_reports_frame Let_def split: option.splits)

lemma initialize_without_migrations:
  assumes "authenticate e = None" and "\<And>s'. fst (migrate e s') = Inr []"
  shows "fst (initialize e otherDb s) \<noteq> Inr This \<and>
         system_meta (snd (initialize e otherDb s)) = system_meta s"
proof -
  let ?s1 = "logger INFO CtxConfig [''Connected to database''] (s\<lparr>dollar_sequelize := otherDb\<rparr>)"
  obtain r s2 where c: "checkDatabaseVersion e ?s1 = (r, s2)"
    by (cases "checkDatabaseVersion e ?s1")
  obtain s3 where m: "migrate e s2 = (Inr [], s3)"
    using assms(2) [of s2] by (cases "migrate e s2") simp
  have "system_meta s2 = system_meta ?s1"
    using checkDatabaseVersion_frame [of e ?s1] c by simp
  moreover have "system_meta s3 = system_meta s2"
    using migrate_frame [of e s2] m by simp
  ultimately have "system_meta s3 = system_meta s" "system_meta s2 = system_meta s"
    by (simp_all add: logger_def)
  then show ?thesis
    using assms(1) c m by (cases r) (simp_all add: initialize_def Let_def)
qed

text \<open>
  Claim C1, at the input where it fails: a run in which authentication, the
  engine-version check and the migration step all succeed and the migration runner
  reports no executed migration. \<^verbatim>\<open>initialize\<close> then leaves through the bare
  \<^verbatim>\<open>return\<close> after \<^verbatim>\<open>if (!files.length)\<close> and resolves to \<^verbatim>\<open>undefined\<close>; with one
  executed migration the same run reaches \<^verbatim>\<open>return this\<close>.
\<close>

theorem initialize_returns_undefined_without_migrations:
  "fst (migrate example_env example_db) = Inr [] \<and>
   fst (initialize example_env None example_db) = Inr Undefined \<and>
   fst (migrate migrated_env example_db) = Inr [\<lparr>migration_file = ''001-init.js''\<rparr>] \<and>
   fst (initialize migrated_env None example_db) = Inr This"
proof -
  have a: "authenticate example_env = None" "authenticate migrated_env = None"
    by (simp_all add: example_env_def migrated_env_def)
  have "fst (initialize example_env None example_db) = Inr Undefined"
    by (simp add: initialize_def a migrate_example initialize_example_check)
  moreover have "fst (initialize migrated_env None example_db) = Inr This"
    by (simp add: initialize_def a initialize_example_check migrate_example
        initSystemMeta_def model_def logger_def example_db_def Let_def)
  ultimately show ?thesis by (simp add: migrate_example)
qed

lemma initSystemMeta_idempotent:
  assumes "model e s ''SystemMeta'' = Inr (Some M)"
    and "map_of (system_meta s) ''versions'' = Some d"
  shows "initSystemMeta e [(''versions'', [])] None s = (Inr (Some [(''versions'', [])]), s)"
  using assms by (simp add: initSystemMeta_def)

lemma initSystemMeta_seeds:
  assumes "model e s ''SystemMeta'' = Inr (Some M)"
    and "map_of (system_meta s) ''versions'' = None"
  shows "initSystemMeta e [(''versions'', [])] None s =
     (Inr (Some [(''versions'', [])]), s\<lparr>system_meta := system_meta s @ [(''versions'', [])]\<rparr>)"
  using assms by (simp add: initSystemMeta_def Let_def)

text \<open>
  Claim C2, at the input where it fails: in the same successful run with no executed
  migration, the system-metadata table is left as it was, without a \<^verbatim>\<open>versions\<close>
  record; with one executed migration the record is seeded with an empty data mapping.
  (Where the seeding step runs, it is idempotent: \<open>initSystemMeta_idempotent\<close>.)
\<close>

theorem initialize_skips_seeding_without_migrations:
  "fst (initialize example_env None example_db) = Inr Undefined \<and>
   map_of (system_meta (snd (initialize example_env None example_db))) ''versions'' = None \<and>
   system_meta (snd (initialize example_env None example_db)) = system_meta example_db \<and>
   fst (initialize migrated_env None example_db) = Inr This \<and>
   map_of (system_meta (snd (initialize migrated_env None example_db))) ''versions'' = Some []"
proof -
  have a: "authenticate example_env = None" "authenticate migrated_env = None"
    by (simp_all add: example_env_def migrated_env_def)
  have "initialize example_env None example_db =
      (Inr Undefined,
       logger INFO (CtxVersion ''12.3'') [''postgres version:'', ''12.3'']
         (logger INFO CtxConfig [''Connected to database''] example_db))"
    by (simp add: initialize_def a migrate_example initialize_example_check example_db_def)
  moreover have "fst (initialize migrated_env None example_db) = Inr This \<and>
      map_of (system_meta (snd (initialize migrated_env None example_db))) ''versions'' = Some []"
    by (simp add: initialize_def a initialize_example_check migrate_example
        initSystemMeta_def model_def logger_def example_db_def Let_def)
  ultimately show ?thesis by (simp add: logger_def example_db_def)
qed

lemma initSystemMeta_guard:
  assumes "model e s ''SystemMeta'' = Inr None"
  shows "initSystemMeta e records opts s = (Inr None, s)"
  using assms by (simp add: initSystemMeta_def)

lemma initSystemMeta_base_throws:
  assumes "models s = Some registered" and "map_of registered ''SystemMeta'' = None"
    and "super_model e ''SystemMeta'' = Inl err"
  shows "initSystemMeta e records opts s = (Inl err, s)"
  using assms by (simp add: initSystemMeta_def model_def)

text \<open>
  Claim C3, at the input where it fails: on a manager on which \<^verbatim>\<open>register\<close> has not
  run, \<^verbatim>\<open>this.$models\<close> is undefined, so the lookup \<^verbatim>\<open>model('SystemMeta')\<close> throws
  before the guard \<^verbatim>\<open>if (!SystemMeta) return\<close> is reached, and \<^verbatim>\<open>initSystemMeta\<close>
  throws too. (The guard makes the call a no-op only when the lookup returns nothing:
  \<open>initSystemMeta_guard\<close>; an error of the base class's lookup propagates:
  \<open>initSystemMeta_base_throws\<close>.)
\<close>

theorem initSystemMeta_throws_before_register:
  "model e (s\<lparr>models := None\<rparr>) ''SystemMeta'' =
     Inl (JsError ''TypeError'' ''Cannot read properties of undefined'' None) \<and>
   initSystemMeta e records opts (s\<lparr>models := None\<rparr>) =
     (Inl (JsError ''TypeError'' ''Cannot read properties of undefined'' None),
      s\<lparr>models := None\<rparr>)"
  by (simp add: initSystemMeta_def model_def)

section \<open>Unique-index groups\<close>

lemma uniqueIndices_groups:
  assumes "g \<noteq> []" and "g \<noteq> c" and "g \<noteq> ''true''"
    and "g \<notin> set object_prototype_members" and "c \<noteq> ''__proto__''"
    and "array_index g = None" and "array_index c = None"
  shows "uniqueIndices [(na, attribute a (JStr g)), (nb, attribute b (JStr g)),
                        (nc, attribute c (JBool True))] = [[JStr a, JStr b], [JStr c]]"
  using assms
  by (simp add: uniqueIndices_def uniqueIndices_step_def attribute_def acc_truthy_def
      own_entries_def object_prototype_members_def)

text \<open>
  Claim C9, at inputs where it fails: fields \<^verbatim>\<open>a\<close> and \<^verbatim>\<open>b\<close> share a named
  uniqueness group and field \<^verbatim>\<open>c\<close> is marked \<^verbatim>\<open>unique: true\<close>. When the group is
  named like the column of \<^verbatim>\<open>c\<close>, the singleton group overwrites the named one in the
  accumulator; when the group is named \<^verbatim>\<open>true\<close>, \<^verbatim>\<open>acc[unique]\<close> finds it for the
  boolean marker and the singleton group is never made. With another group name the
  result is \<^verbatim>\<open>[[a,b],[c]]\<close> (in general: \<open>uniqueIndices_groups\<close>).
\<close>

theorem uniqueIndices_key_collision:
  "uniqueIndices [(''a'', attribute ''a'' (JStr ''c'')),
                  (''b'', attribute ''b'' (JStr ''c'')),
                  (''c'', attribute ''c'' (JBool True))] = [[JStr ''c'']] \<and>
   uniqueIndices [(''a'', attribute ''a'' (JStr ''true'')),
                  (''b'', attribute ''b'' (JStr ''true'')),
                  (''c'', attribute ''c'' (JBool True))] = [[JStr ''a'', JStr ''b'']] \<and>
   uniqueIndices [(''a'', attribute ''a'' (JStr ''pair'')),
                  (''b'', attribute ''b'' (JStr ''pair'')),
                  (''c'', attribute ''c'' (JBool True))] = [[JStr ''a'', JStr ''b''], [JStr ''c'']]"
  by (simp add: uniqueIndices_def uniqueIndices_step_def attribute_def acc_truthy_def
      own_entries_def array_index_def is_digit_def object_prototype_members_def)

lemma uniqueIndices_inherited_and_index_names:
  "uniqueIndices [(''a'', attribute ''a'' (JStr ''toString'')),
                  (''b'', attribute ''b'' (JStr ''toString'')),
                  (''c'', attribute ''c'' (JBool True))] = [[JStr ''c'']] \<and>
   uniqueIndices [(''a'', attribute ''a'' (JStr ''pair'')),
                  (''b'', attribute ''b'' (JStr ''pair'')),
                  (''7'', attribute ''7'' (JBool True))] = [[JStr ''7''], [JStr ''a'', JStr ''b'']]"
  by (simp add: uniqueIndices_def uniqueIndices_step_def attribute_def acc_truthy_def
      own_entries_def array_index_def is_digit_def decimal_def object_prototype_members_def)

section \<open>The version store\<close>

lemma model_frame [simp]:
  "model e (s\<lparr>system_meta := table\<rparr>) name = model e s name"
  by (simp add: model_def)

lemma getSystemMeta_registered:
  assumes "model e s ''SystemMeta'' = Inr (Some M)"
  shows "getSystemMeta e name s =
     (Inr \<lparr>meta_name = name, data = fst (findOrCreate name (system_meta s))\<rparr>,
      s\<lparr>system_meta := snd (findOrCreate name (system_meta s))\<rparr>)"
  using assms by (simp add: getSystemMeta_def split: prod.splits)

lemma findOrCreate_found:
  "map_of table name = Some d \<Longrightarrow> findOrCreate name table = (d, table)"
  by (simp add: findOrCreate_def)

lemma findOrCreate_created:
  "map_of table name = None \<Longrightarrow> findOrCreate name table = ([], table @ [(name, [])])"
  by (simp add: findOrCreate_def)

lemma getVersion_registered:
  assumes "model e s ''SystemMeta'' = Inr (Some M)"
  shows "getVersion e name s =
     (Inr (if entry_truthy
                (get_data \<lparr>meta_name = ''versions'',
                           data = fst (findOrCreate ''versions'' (system_meta s))\<rparr> name)
           then parseISO_of e
                  (get_data \<lparr>meta_name = ''versions'',
                             data = fst (findOrCreate ''versions'' (system_meta s))\<rparr> name)
           else Date 0),
      s\<lparr>system_meta := snd (findOrCreate ''versions'' (system_meta s))\<rparr>)"
  by (simp add: getVersion_def getSystemMeta_registered [OF assms] Let_def)

text \<open>
  Claim C8, as amended. With the \<^verbatim>\<open>SystemMeta\<close> model registered, \<^verbatim>\<open>getVersion\<close> for any
  model name finds or creates the metadata record named \<^verbatim>\<open>versions\<close> (the table is
  left as it was when the record exists, and gains the record with an empty data
  mapping when it does not) and reads the record's data entry for the model's name.
  It returns the epoch (time zero) when the entry is absent (the name not being that of
  a member of \<^verbatim>\<open>Object.prototype\<close>), in particular when the record has just been
  created, and also when the entry is \<^verbatim>\<open>null\<close> or the empty string; it returns the
  string parsed when the entry is a non-empty string, and the date library's invalid
  date for an entry that is an object.
\<close>

theorem getVersion_reads_versions:
  assumes "model e s ''SystemMeta'' = Inr (Some M)"
  shows "snd (getVersion e name s) =
           s\<lparr>system_meta := snd (findOrCreate ''versions'' (system_meta s))\<rparr> \<and>
         (map_of (system_meta s) ''versions'' = None \<longrightarrow>
            system_meta (snd (getVersion e name s)) = system_meta s @ [(''versions'', [])] \<and>
            (name \<notin> set object_prototype_members \<longrightarrow>
               fst (getVersion e name s) = Inr (Date 0))) \<and>
         (\<forall>d. map_of (system_meta s) ''versions'' = Some d \<longrightarrow>
            snd (getVersion e name s) = s \<and>
            (map_of d name = None \<and> name \<notin> set object_prototype_members \<longrightarrow>
               fst (getVersion e name s) = Inr (Date 0)) \<and>
            (map_of d name = Some JsonNull \<longrightarrow> fst (getVersion e name s) = Inr (Date 0)) \<and>
            (map_of d name = Some (JsonStr []) \<longrightarrow> fst (getVersion e name s) = Inr (Date 0)) \<and>
            (\<forall>str. map_of d name = Some (JsonStr str) \<and> str \<noteq> [] \<longrightarrow>
               fst (getVersion e name s) = Inr (parseISO e str)) \<and>
            (\<forall>kvs. map_of d name = Some (JsonObj kvs) \<longrightarrow>
               fst (getVersion e name s) = Inr InvalidDate))"
  by (auto simp: getVersion_registered [OF assms] findOrCreate_found findOrCreate_created
      get_data_def)

theorem getVersion_reads_versions_witness:
  "model example_env example_db ''SystemMeta'' = Inr (Some (ModelClass ''SystemMeta'')) \<and>
   map_of (system_meta example_db) ''versions'' = None \<and>
   ''Bar'' \<notin> set object_prototype_members \<and>
   fst (getVersion example_env ''Bar'' example_db) = Inr (Date 0) \<and>
   system_meta (snd (getVersion example_env ''Bar'' example_db)) = [(''versions'', [])] \<and>
   map_of (system_meta (example_db\<lparr>system_meta := [(''versions'', [(''Foo'', JsonStr day_two)])]\<rparr>))
     ''versions'' = Some [(''Foo'', JsonStr day_two)] \<and>
   fst (getVersion example_env ''Foo''
          (example_db\<lparr>system_meta := [(''versions'', [(''Foo'', JsonStr day_two)])]\<rparr>)) =
     Inr (Date 86400000) \<and>
   fst (getVersion example_env ''Bar''
          (example_db\<lparr>system_meta := [(''versions'', [(''Foo'', JsonStr day_two)])]\<rparr>)) =
     Inr (Date 0)"
proof -
  let ?db = "example_db\<lparr>system_meta := [(''versions'', [(''Foo'', JsonStr day_two)])]\<rparr>"
  have reg: "model example_env example_db ''SystemMeta'' = Inr (Some (ModelClass ''SystemMeta''))"
    by (simp add: model_def example_db_def)
  then have reg': "model example_env ?db ''SystemMeta'' = Inr (Some (ModelClass ''SystemMeta''))"
    by simp
  have none: "map_of (system_meta example_db) ''versions'' = None"
    by (simp add: example_db_def)
  have some: "map_of (system_meta ?db) ''versions'' = Some [(''Foo'', JsonStr day_two)]"
    by simp
  have bar: "''Bar'' \<notin> set object_prototype_members"
    by (simp add: object_prototype_members_def)
  have p: "parseISO example_env day_two = Date 86400000" "day_two \<noteq> []"
    by (simp_all add: example_env_def day_two_def)
  from getVersion_reads_versions [OF reg, of "''Bar''"] none bar
  have a0: "fst (getVersion example_env ''Bar'' example_db) = Inr (Date 0)"
    "system_meta (snd (getVersion example_env ''Bar'' example_db)) =
       system_meta example_db @ [(''versions'', [])]"
    by blast+
  then have a: "fst (getVersion example_env ''Bar'' example_db) = Inr (Date 0)"
    "system_meta (snd (getVersion example_env ''Bar'' example_db)) = [(''versions'', [])]"
    by (simp_all add: example_db_def)
  from getVersion_reads_versions [OF reg', of "''Foo''"] some p
  have b: "fst (getVersion example_env ''Foo'' ?db) = Inr (Date 86400000)"
    by simp
  from getVersion_reads_versions [OF reg', of "''Bar''"] some bar
  have c: "fst (getVersion example_env ''Bar'' ?db) = Inr (Date 0)"
    by simp
  show ?thesis using reg none some bar a b c by simp
qed

theorem getVersion_falsy_entry_counterexample:
  "map_of [(''Foo'', JsonStr [])] ''Foo'' = Some (JsonStr []) \<and>
   fst (getVersion example_env ''Foo''
          (example_db\<lparr>system_meta := [(''versions'', [(''Foo'', JsonStr [])])]\<rparr>)) =
     Inr (Date 0) \<and>
   parseISO example_env [] = InvalidDate \<and>
   fst (getVersion example_env ''Foo''
          (example_db\<lparr>system_meta := [(''versions'', [(''Foo'', JsonNull)])]\<rparr>)) =
     Inr (Date 0) \<and>
   fst (getVersion example_env ''Foo'' (example_db\<lparr>models := None\<rparr>)) =
     Inl (JsError ''TypeError'' ''Cannot read properties of undefined'' None)"
  by (simp add: getVersion_def getSystemMeta_def model_def findOrCreate_def get_data_def
      example_db_def example_env_def Let_def)

lemma getVersion_inherited_name:
  "fst (getVersion example_env ''toString'' example_db) = Inr InvalidDate"
  by (simp add: getVersion_def getSystemMeta_def model_def findOrCreate_def get_data_def
      object_prototype_members_def example_db_def example_env_def Let_def)

lemma split_at_none: "c \<notin> set xs \<Longrightarrow> split_at c xs = [xs]"
  by (induction xs) auto

lemma split_at_prefix:
  "c \<notin> set ys \<Longrightarrow> split_at c (ys @ c # xs) = ys # split_at c xs"
  by (induction ys) auto

lemma path_pieces:
  assumes "CHR ''.'' \<notin> set name"
  shows "split_at CHR ''.'' (join ''.'' [''data'', name]) = [''data'', name]"
  using split_at_none [OF assms] by simp

lemma meta_set_flat:
  assumes "CHR ''.'' \<notin> set name"
  shows "meta_set sm (join ''.'' [''data'', name]) v = Inr (sm\<lparr>data := obj_set name v (data sm)\<rparr>)"
  unfolding meta_set_def path_pieces [OF assms] by simp

lemma setVersion_flat:
  assumes "model e s ''SystemMeta'' = Inr (Some M)" and "CHR ''.'' \<notin> set name"
  shows "setVersion e name v s =
     (Inr \<lparr>meta_name = ''versions'',
           data = obj_set name v (fst (findOrCreate ''versions'' (system_meta s)))\<rparr>,
      s\<lparr>system_meta :=
           obj_set ''versions''
             (obj_set name v (fst (findOrCreate ''versions'' (system_meta s))))
             (snd (findOrCreate ''versions'' (system_meta s)))\<rparr>)"
  by (simp add: setVersion_def getSystemMeta_registered [OF assms(1)] meta_set_flat [OF assms(2)]
      save_def Let_def del: join.simps)

lemma setVersion_getVersion_roundtrip:
  assumes "model e s ''SystemMeta'' = Inr (Some M)"
    and "CHR ''.'' \<notin> set name"
    and "name \<noteq> ''__proto__''"
    and "T \<noteq> []"
  shows "fst (setVersion e name (JsonStr T) s) =
           Inr \<lparr>meta_name = ''versions'',
                 data = obj_set name (JsonStr T)
                          (fst (findOrCreate ''versions'' (system_meta s)))\<rparr> \<and>
         fst (getVersion e name (snd (setVersion e name (JsonStr T) s))) = Inr (parseISO e T)"
proof -
  let ?d = "obj_set name (JsonStr T) (fst (findOrCreate ''versions'' (system_meta s)))"
  let ?table = "obj_set ''versions'' ?d (snd (findOrCreate ''versions'' (system_meta s)))"
  have sv: "setVersion e name (JsonStr T) s =
      (Inr \<lparr>meta_name = ''versions'', data = ?d\<rparr>, s\<lparr>system_meta := ?table\<rparr>)"
    by (rule setVersion_flat [OF assms(1,2)])
  have reg: "model e (s\<lparr>system_meta := ?table\<rparr>) ''SystemMeta'' = Inr (Some M)"
    using assms(1) by simp
  have row: "map_of ?table ''versions'' = Some ?d"
    by (simp add: map_of_obj_set)
  have entry: "map_of ?d name = Some (JsonStr T)"
    by (simp add: map_of_obj_set [OF assms(3)])
  have "fst (getVersion e name (s\<lparr>system_meta := ?table\<rparr>)) = Inr (parseISO e T)"
    using row entry assms(4)
    by (simp add: getVersion_registered [OF reg] findOrCreate_found get_data_def)
  then show ?thesis by (simp add: sv)
qed

lemma setVersion_getVersion_roundtrip_example:
  "fst (getVersion example_env ''Foo''
          (snd (setVersion example_env ''Foo'' (JsonStr day_two) example_db))) =
     Inr (Date 86400000)"
proof -
  have reg: "model example_env example_db ''SystemMeta'' = Inr (Some (ModelClass ''SystemMeta''))"
    by (simp add: model_def example_db_def)
  have p: "parseISO example_env day_two = Date 86400000"
    by (simp add: example_env_def day_two_def)
  from setVersion_getVersion_roundtrip [OF reg, of "''Foo''" day_two] p
  show ?thesis by (simp add: day_two_def)
qed

text \<open>
  Claim C7, at the input where it fails: a model named \<^verbatim>\<open>a.b\<close>, with the \<^verbatim>\<open>SystemMeta\<close>
  model registered and an empty table. \<^verbatim>\<open>setVersion\<close> addresses the entry by the
  dot-joined path \<^verbatim>\<open>data.a.b\<close> and stores the timestamp as entry \<^verbatim>\<open>b\<close> of an
  object \<^verbatim>\<open>a\<close>; \<^verbatim>\<open>getVersion\<close> addresses it by the array path, reads the
  one key \<^verbatim>\<open>a.b\<close>, finds nothing and returns the epoch, not the timestamp stored. (For
  a name without a dot, other than \<^verbatim>\<open>__proto__\<close>, the two paths agree and the round
  trip holds: \<open>setVersion_getVersion_roundtrip\<close>.)
\<close>

theorem setVersion_getVersion_dotted_name:
  "fst (setVersion example_env ''a.b'' (JsonStr day_two) example_db) =
     Inr \<lparr>meta_name = ''versions'', data = [(''a'', JsonObj [(''b'', JsonStr day_two)])]\<rparr> \<and>
   system_meta (snd (setVersion example_env ''a.b'' (JsonStr day_two) example_db)) =
     [(''versions'', [(''a'', JsonObj [(''b'', JsonStr day_two)])])] \<and>
   fst (getVersion example_env ''a.b''
          (snd (setVersion example_env ''a.b'' (JsonStr day_two) example_db))) = Inr (Date 0) \<and>
   parseISO example_env day_two = Date 86400000"
  by (simp add: setVersion_def getVersion_def getSystemMeta_def model_def findOrCreate_def
      meta_set_def save_def get_data_def object_prototype_members_def
      example_db_def example_env_def day_two_def Let_def)

lemma setVersion_getVersion_proto_name:
  "system_meta (snd (setVersion example_env ''__proto__'' (JsonStr day_two) example_db)) =
     [(''versions'', [])] \<and>
   fst (getVersion example_env ''__proto__''
          (snd (setVersion example_env ''__proto__'' (JsonStr day_two) example_db))) =
     Inr InvalidDate"
  by (simp add: setVersion_def getVersion_def getSystemMeta_def model_def findOrCreate_def
      meta_set_def save_def get_data_def object_prototype_members_def
      example_db_def example_env_def day_two_def Let_def)

end
